theory Spec2Isabelle
  imports Complex_Main "HOL-Library.Multiset" "HOL-Library.Sublist" "HOL-Library.Char_ord"
begin

section \<open>Strings\<close>

text \<open>
  A Go string is a sequence of bytes; it is modelled as a \<open>string\<close> (a list of 8-bit
  characters). The functions of package \<open>strings\<close> that the code calls are written out
  for ASCII text: \<open>ToLower\<close> maps \<open>A\<close>..\<open>Z\<close> to \<open>a\<close>..\<open>z\<close> and leaves every other byte
  alone, and white space is the six ASCII white space characters. The case mapping and
  the white space of code points beyond ASCII are not modelled.
\<close>

definition toLowerChar :: "char \<Rightarrow> char" where
  "toLowerChar c =
     (if CHR ''A'' \<le> c \<and> c \<le> CHR ''Z'' then char_of (of_char c + (32::nat)) else c)"

definition ToLower :: "string \<Rightarrow> string" where
  "ToLower s = map toLowerChar s"

definition isSpace :: "char \<Rightarrow> bool" where
  "isSpace c = (c = CHR 0x09 \<or> c = CHR 0x0A \<or> c = CHR 0x0B \<or> c = CHR 0x0C
                \<or> c = CHR 0x0D \<or> c = CHR 0x20)"

text \<open>
  \<open>strings.FieldsFunc(s, f)\<close> splits \<open>s\<close> at every run of characters satisfying \<open>f\<close> and
  returns the non-empty pieces in between. \<open>cur\<close> is the piece being read.
\<close>

fun fieldsFrom :: "(char \<Rightarrow> bool) \<Rightarrow> string \<Rightarrow> string \<Rightarrow> string list" where
  "fieldsFrom f cur [] = (if cur = [] then [] else [cur])"
| "fieldsFrom f cur (c # cs) =
     (if f c then (if cur = [] then fieldsFrom f [] cs else cur # fieldsFrom f [] cs)
      else fieldsFrom f (cur @ [c]) cs)"

definition FieldsFunc :: "string \<Rightarrow> (char \<Rightarrow> bool) \<Rightarrow> string list" where
  "FieldsFunc s f = fieldsFrom f [] s"

definition Fields :: "string \<Rightarrow> string list" where
  "Fields s = FieldsFunc s isSpace"

text \<open>\<open>strings.Contains(s, substr)\<close>: \<open>substr\<close> occurs in \<open>s\<close> as a contiguous block.\<close>

fun Contains :: "string \<Rightarrow> string \<Rightarrow> bool" where
  "Contains [] substr = (substr = [])"
| "Contains (c # cs) substr = (prefix substr (c # cs) \<or> Contains cs substr)"

section \<open>Tools\<close>

text \<open>
  A value of Go's type \<open>any\<close>, as far as the code looks at it: the nil interface, a
  \<open>map[string]any\<close> (an association list of its entries), or a value of another dynamic
  type.
\<close>

datatype any_value =
    AnyNil
  | AnyString string
  | AnyNumber int
  | AnyBool bool
  | AnyList "any_value list"
  | AnyStringMap "(string \<times> any_value) list"

text \<open>
  Modelled from the spec: the declarations of \<open>tools.Tool\<close> and \<open>tools.ToolMetadata\<close>
  (package \<open>tools\<close> is not among the sources). The fields are the ones the code reads and
  writes. \<open>meta_Parameters\<close> is \<open>None\<close> while the field has never been assigned (Go's
  nil map), which is the state the spec calls "omitted".
\<close>

record Tool =
  Name :: string
  Category :: string
  Description :: string
  InputSchema :: any_value

record ToolMetadata =
  meta_Name :: string
  meta_Category :: string
  meta_Description :: string
  meta_Parameters :: "(string \<times> any_value) list option"

text \<open>
  What a call can end with besides its result: an \<open>error\<close> value returned to the caller,
  or a run-time panic.
\<close>

datatype failure = Error string | Panic string

section \<open>The lexical strategy: MockSearchStore\<close>

record MockSearchStore =
  mock_tools :: "Tool list"

definition NewMockSearchStore :: MockSearchStore where
  "NewMockSearchStore = \<lparr>mock_tools = []\<rparr>"

definition Mock_BuildFromTools ::
    "MockSearchStore \<Rightarrow> Tool list \<Rightarrow> MockSearchStore \<times> failure option" where
  "Mock_BuildFromTools s allTools = (s\<lparr>mock_tools := allTools\<rparr>, None)"

record scoredTool =
  tool :: Tool
  score :: int

text \<open>The loop over \<open>queryWords\<close> for one tool; \<open>sc\<close> is the running \<open>score\<close>.\<close>

fun scoreWords :: "string \<Rightarrow> string \<Rightarrow> string \<Rightarrow> string list \<Rightarrow> int \<Rightarrow> int" where
  "scoreWords nameLower descLower categoryLower [] sc = sc"
| "scoreWords nameLower descLower categoryLower (word # ws) sc =
     (let sc1 = (if Contains nameLower word then sc + 3 else sc);
          sc2 = (if Contains descLower word then sc1 + 2 else sc1);
          sc3 = (if Contains categoryLower word then sc2 + 1 else sc2)
      in scoreWords nameLower descLower categoryLower ws sc3)"

text \<open>The loop over \<open>s.tools\<close>; \<open>scored\<close> is the slice appended to.\<close>

fun scoreTools :: "string \<Rightarrow> string list \<Rightarrow> Tool list \<Rightarrow> scoredTool list \<Rightarrow> scoredTool list" where
  "scoreTools query queryWords [] scored = scored"
| "scoreTools query queryWords (t # ts) scored =
     (let sc = scoreWords (ToLower (Name t)) (ToLower (Description t))
                 (ToLower (Category t)) queryWords 0
      in scoreTools query queryWords ts
           (if sc > 0 \<or> query = [] then scored @ [\<lparr>tool = t, score = sc\<rparr>] else scored))"

text \<open>
  The two nested loops that sort \<open>scored\<close> in place: for every \<open>i\<close> and every \<open>j > i\<close>,
  the entries at \<open>i\<close> and \<open>j\<close> are exchanged when the one at \<open>j\<close> has the larger score.
\<close>

definition swapAt :: "nat \<Rightarrow> nat \<Rightarrow> 'a list \<Rightarrow> 'a list" where
  "swapAt i j xs = xs[i := xs ! j, j := xs ! i]"

function sortInner :: "nat \<Rightarrow> nat \<Rightarrow> scoredTool list \<Rightarrow> scoredTool list" where
  "sortInner i j scored =
     (if j < length scored
      then sortInner i (j + 1)
             (if score (scored ! j) > score (scored ! i) then swapAt i j scored else scored)
      else scored)"
  by pat_completeness auto
termination
  by (relation "measure (\<lambda>(i, j, scored). length scored - j)") (auto simp: swapAt_def)

declare sortInner.simps [simp del]

lemma length_sortInner: "length (sortInner i j scored) = length scored"
proof (induction i j scored rule: sortInner.induct)
  case (1 i j scored)
  show ?case
  proof (cases "j < length scored")
    case True
    with 1 show ?thesis
      by (subst sortInner.simps) (simp add: swapAt_def)
  next
    case False
    then show ?thesis
      by (subst sortInner.simps) simp
  qed
qed

function sortOuter :: "nat \<Rightarrow> scoredTool list \<Rightarrow> scoredTool list" where
  "sortOuter i scored =
     (if i < length scored then sortOuter (i + 1) (sortInner i (i + 1) scored) else scored)"
  by pat_completeness auto
termination
  by (relation "measure (\<lambda>(i, scored). length scored - i)") (auto simp: length_sortInner)

declare sortOuter.simps [simp del]

text \<open>The loop that copies the first \<open>topK\<close> tools of \<open>scored\<close> into \<open>results\<close>.\<close>

function topResults :: "nat \<Rightarrow> int \<Rightarrow> scoredTool list \<Rightarrow> Tool list \<Rightarrow> Tool list" where
  "topResults i topK scored results =
     (if i < length scored \<and> int i < topK
      then topResults (i + 1) topK scored (results @ [tool (scored ! i)])
      else results)"
  by pat_completeness auto
termination
  by (relation "measure (\<lambda>(i, topK, scored, results). length scored - i)") auto

declare topResults.simps [simp del]

text \<open>
  \<open>MockSearchStore.Search\<close>. \<open>make([]*tools.Tool, 0, topK)\<close> panics at run time when the
  capacity \<open>topK\<close> is negative; a limit on how large a capacity can be allocated is not
  modelled. \<open>topK\<close> and the scores are Go \<open>int\<close>s, modelled as unbounded integers: a
  score is at most six times the number of query words.
\<close>

definition Mock_Search :: "MockSearchStore \<Rightarrow> string \<Rightarrow> int \<Rightarrow> failure + Tool list" where
  "Mock_Search s query topK =
     (if length (mock_tools s) = 0 then Inr []
      else
        let queryLower = ToLower query;
            queryWords = Fields queryLower;
            scored = scoreTools query queryWords (mock_tools s) [];
            scored = sortOuter 0 scored
        in if topK < 0 then Inl (Panic ''makeslice: cap out of range'')
           else Inr (topResults 0 topK scored []))"

definition Mock_GetToolCount :: "MockSearchStore \<Rightarrow> int" where
  "Mock_GetToolCount s = int (length (mock_tools s))"

section \<open>The external-rerank strategy: CodexSearchStore\<close>

text \<open>
  \<open>searcher\<close> is the external collaborator, \<open>CodexSearcher.SearchTools(query, schemas,
  topK)\<close>: it returns an error (\<open>Inl\<close>) or a list of tool names. \<open>schemas\<close> is \<open>None\<close> for
  the nil slice of a store that has not been built.
\<close>

record CodexSearchStore =
  searcher :: "string \<Rightarrow> string option \<Rightarrow> int \<Rightarrow> string + string list"
  codex_tools :: "Tool list"
  schemas :: "string option"

definition NewCodexSearchStore ::
    "(string \<Rightarrow> string option \<Rightarrow> int \<Rightarrow> string + string list) \<Rightarrow> CodexSearchStore" where
  "NewCodexSearchStore sr = \<lparr>searcher = sr, codex_tools = [], schemas = None\<rparr>"

definition toolMetadata :: "Tool \<Rightarrow> ToolMetadata" where
  "toolMetadata t =
     (let metadata = \<lparr>meta_Name = Name t, meta_Category = Category t,
                       meta_Description = Description t, meta_Parameters = None\<rparr>
      in if InputSchema t \<noteq> AnyNil
         then (case InputSchema t of
                 AnyStringMap schemaMap \<Rightarrow> metadata\<lparr>meta_Parameters := Some schemaMap\<rparr>
               | _ \<Rightarrow> metadata)
         else metadata)"

primrec toolSchemasOf :: "Tool list \<Rightarrow> ToolMetadata list" where
  "toolSchemasOf [] = []"
| "toolSchemasOf (t # ts) = toolMetadata t # toolSchemasOf ts"

text \<open>
  \<open>CodexSearchStore.BuildFromTools\<close>. \<open>marshal\<close> stands for \<open>json.Marshal\<close> on the metadata
  list: it returns the bytes or an error. The tool list is assigned before the
  serialization, so it is replaced also when the build fails.
\<close>

definition Codex_BuildFromTools ::
    "(ToolMetadata list \<Rightarrow> string + string) \<Rightarrow> CodexSearchStore \<Rightarrow> Tool list
       \<Rightarrow> CodexSearchStore \<times> failure option" where
  "Codex_BuildFromTools marshal s allTools =
     (let s1 = s\<lparr>codex_tools := allTools\<rparr>;
          toolSchemas = toolSchemasOf allTools
      in case marshal toolSchemas of
           Inl err \<Rightarrow> (s1, Some (Error (''failed to marshal tool schemas: '' @ err)))
         | Inr bytes \<Rightarrow> (s1\<lparr>schemas := Some bytes\<rparr>, None))"

fun buildToolMap :: "Tool list \<Rightarrow> (string \<rightharpoonup> Tool) \<Rightarrow> (string \<rightharpoonup> Tool)" where
  "buildToolMap [] toolMap = toolMap"
| "buildToolMap (t # ts) toolMap = buildToolMap ts (toolMap(Name t \<mapsto> t))"

fun lookupNames :: "(string \<rightharpoonup> Tool) \<Rightarrow> string list \<Rightarrow> Tool list \<Rightarrow> Tool list" where
  "lookupNames toolMap [] results = results"
| "lookupNames toolMap (name # names) results =
     lookupNames toolMap names
       (case toolMap name of Some t \<Rightarrow> results @ [t] | None \<Rightarrow> results)"

definition Codex_Search :: "CodexSearchStore \<Rightarrow> string \<Rightarrow> int \<Rightarrow> failure + Tool list" where
  "Codex_Search s query topK =
     (if length (codex_tools s) = 0 then Inr []
      else
        case searcher s query (schemas s) topK of
          Inl err \<Rightarrow> Inl (Error (''codex search failed: '' @ err))
        | Inr toolNames \<Rightarrow>
            Inr (lookupNames (buildToolMap (codex_tools s) Map.empty) toolNames []))"

definition Codex_GetToolCount :: "CodexSearchStore \<Rightarrow> int" where
  "Codex_GetToolCount s = int (length (codex_tools s))"

section \<open>The static embedding model: GloVeEmbedder\<close>

text \<open>
  A \<open>float32\<close> is modelled as a real number: rounding is not modelled. \<open>dim\<close> is a Go
  \<open>int\<close> that only ever holds a dimension of the preset table, modelled as a natural
  number.
\<close>

record GloVeEmbedder =
  vectors :: "string \<rightharpoonup> real list"
  dim :: nat









definition isAlnum :: "char \<Rightarrow> bool" where
  "isAlnum r = ((CHR ''a'' \<le> r \<and> r \<le> CHR ''z'') \<or> (CHR ''0'' \<le> r \<and> r \<le> CHR ''9''))"

definition stopWords :: "string list" where
  "stopWords =
     [''a'', ''an'', ''and'', ''are'', ''as'',
      ''at'', ''be'', ''by'', ''for'', ''from'',
      ''has'', ''he'', ''in'', ''is'', ''it'',
      ''its'', ''of'', ''on'', ''that'', ''the'',
      ''this'', ''to'', ''was'', ''will'', ''with'']"

text \<open>The words of a text before the short words and the stop words are filtered out.\<close>

definition splitWords :: "string \<Rightarrow> string list" where
  "splitWords text = FieldsFunc (ToLower text) (\<lambda>r. \<not> isAlnum r)"

definition tokenize :: "string \<Rightarrow> string list" where
  "tokenize text =
     (let words = splitWords text
      in filter (\<lambda>word. length word > 1 \<and> word \<notin> set stopWords) words)"

text \<open>
  Modelled from the spec: \<open>normalize\<close>, which \<open>Generate\<close> calls and which is not among the
  sources: "divide by the vector's Euclidean norm if nonzero, else return the all-zero
  vector unchanged".
\<close>

definition normalize :: "real list \<Rightarrow> real list" where
  "normalize v =
     (let norm = sqrt (\<Sum>x\<leftarrow>v. x * x)
      in if norm = 0 then v else map (\<lambda>x. x / norm) v)"

text \<open>
  The loop \<open>for i := 0; i < e.dim; i++ { embedding[i] += vec[i] }\<close>. Indexing a slice
  beyond its length panics.
\<close>

function addVec :: "nat \<Rightarrow> nat \<Rightarrow> real list \<Rightarrow> real list \<Rightarrow> failure + real list" where
  "addVec i d embedding vec =
     (if i < d
      then (if i < length embedding \<and> i < length vec
            then addVec (i + 1) d (embedding[i := embedding ! i + vec ! i]) vec
            else Inl (Panic ''index out of range''))
      else Inr embedding)"
  by pat_completeness auto
termination
  by (relation "measure (\<lambda>(i, d, embedding, vec). d - i)") auto

declare addVec.simps [simp del]

text \<open>The loop over the words; \<open>cnt\<close> is \<open>count\<close>, the number of words found in the table.\<close>

fun sumVecs ::
    "GloVeEmbedder \<Rightarrow> string list \<Rightarrow> real list \<Rightarrow> nat \<Rightarrow> failure + (real list \<times> nat)" where
  "sumVecs e [] embedding cnt = Inr (embedding, cnt)"
| "sumVecs e (word # ws) embedding cnt =
     (case vectors e word of
        Some vec \<Rightarrow>
          (case addVec 0 (dim e) embedding vec of
             Inl p \<Rightarrow> Inl p
           | Inr embedding' \<Rightarrow> sumVecs e ws embedding' (cnt + 1))
      | None \<Rightarrow> sumVecs e ws embedding cnt)"

definition Generate :: "GloVeEmbedder \<Rightarrow> string \<Rightarrow> failure + real list" where
  "Generate e text =
     (let words = tokenize text
      in if length words = 0 then Inr (replicate (dim e) 0)
         else
           case sumVecs e words (replicate (dim e) 0) 0 of
             Inl p \<Rightarrow> Inl p
           | Inr (embedding, cnt) \<Rightarrow>
               Inr (normalize
                      (if cnt > 0 then map (\<lambda>x. x / real cnt) embedding else embedding)))"


section \<open>The semantic strategy\<close>

text \<open>
  Modelled from the spec: the semantic strategy, whose code is not among the sources
  (spec sections 3, 4.1 and 4.3). Its index is the retained tool list and a mapping from
  tool name to the embedding of the tool's text (name, category and description
  concatenated). A build that fails leaves the index as it was. A search on an empty
  index, or with \<open>topK <= 0\<close>, yields the empty list; otherwise the query is embedded the
  same way and all tools are ranked by cosine similarity to it, descending (ties in
  catalog order), and truncated to \<open>topK\<close>. The cosine similarity against a zero vector
  is 0.
\<close>

record SemanticSearchStore =
  sem_embedder :: GloVeEmbedder
  sem_tools :: "Tool list"
  sem_embeddings :: "string \<rightharpoonup> real list"

definition NewSemanticSearchStore :: "GloVeEmbedder \<Rightarrow> SemanticSearchStore" where
  "NewSemanticSearchStore e = \<lparr>sem_embedder = e, sem_tools = [], sem_embeddings = Map.empty\<rparr>"

definition toolText :: "Tool \<Rightarrow> string" where
  "toolText t = Name t @ Category t @ Description t"

fun embedTools ::
    "GloVeEmbedder \<Rightarrow> Tool list \<Rightarrow> (string \<rightharpoonup> real list) \<Rightarrow> failure + (string \<rightharpoonup> real list)" where
  "embedTools e [] embs = Inr embs"
| "embedTools e (t # ts) embs =
     (case Generate e (toolText t) of
        Inl f \<Rightarrow> Inl f
      | Inr v \<Rightarrow> embedTools e ts (embs(Name t \<mapsto> v)))"

definition Semantic_BuildFromTools ::
    "SemanticSearchStore \<Rightarrow> Tool list \<Rightarrow> SemanticSearchStore \<times> failure option" where
  "Semantic_BuildFromTools s allTools =
     (case embedTools (sem_embedder s) allTools Map.empty of
        Inl f \<Rightarrow> (s, Some f)
      | Inr embs \<Rightarrow> (s\<lparr>sem_tools := allTools, sem_embeddings := embs\<rparr>, None))"

definition cosineSimilarity :: "real list \<Rightarrow> real list \<Rightarrow> real" where
  "cosineSimilarity a b =
     (let na = sqrt (\<Sum>x\<leftarrow>a. x * x);
          nb = sqrt (\<Sum>x\<leftarrow>b. x * x)
      in if na = 0 \<or> nb = 0 then 0 else (\<Sum>(x, y)\<leftarrow>zip a b. x * y) / (na * nb))"

definition similarityOf :: "SemanticSearchStore \<Rightarrow> real list \<Rightarrow> Tool \<Rightarrow> real" where
  "similarityOf s q t =
     (case sem_embeddings s (Name t) of None \<Rightarrow> 0 | Some v \<Rightarrow> cosineSimilarity q v)"

definition Semantic_Search :: "SemanticSearchStore \<Rightarrow> string \<Rightarrow> int \<Rightarrow> failure + Tool list" where
  "Semantic_Search s query topK =
     (if length (sem_tools s) = 0 \<or> topK \<le> 0 then Inr []
      else
        case Generate (sem_embedder s) query of
          Inl f \<Rightarrow> Inl f
        | Inr q \<Rightarrow> Inr (take (nat topK) (sort_key (\<lambda>t. - similarityOf s q t) (sem_tools s))))"

definition Semantic_GetToolCount :: "SemanticSearchStore \<Rightarrow> int" where
  "Semantic_GetToolCount s = int (length (sem_tools s))"

section \<open>The search contract\<close>

text \<open>
  A store behind the common contract is one of the three strategies; each operation
  dispatches to the strategy's own.
\<close>

datatype SearchStore =
    Lexical MockSearchStore
  | Semantic SemanticSearchStore
  | ExternalRerank CodexSearchStore

fun Search :: "SearchStore \<Rightarrow> string \<Rightarrow> int \<Rightarrow> failure + Tool list" where
  "Search (Lexical s) query topK = Mock_Search s query topK"
| "Search (Semantic s) query topK = Semantic_Search s query topK"
| "Search (ExternalRerank s) query topK = Codex_Search s query topK"

fun BuildFromTools ::
    "(ToolMetadata list \<Rightarrow> string + string) \<Rightarrow> SearchStore \<Rightarrow> Tool list
       \<Rightarrow> SearchStore \<times> failure option" where
  "BuildFromTools marshal (Lexical s) allTools =
     (case Mock_BuildFromTools s allTools of (s', e) \<Rightarrow> (Lexical s', e))"
| "BuildFromTools marshal (Semantic s) allTools =
     (case Semantic_BuildFromTools s allTools of (s', e) \<Rightarrow> (Semantic s', e))"
| "BuildFromTools marshal (ExternalRerank s) allTools =
     (case Codex_BuildFromTools marshal s allTools of (s', e) \<Rightarrow> (ExternalRerank s', e))"

fun GetToolCount :: "SearchStore \<Rightarrow> int" where
  "GetToolCount (Lexical s) = Mock_GetToolCount s"
| "GetToolCount (Semantic s) = Semantic_GetToolCount s"
| "GetToolCount (ExternalRerank s) = Codex_GetToolCount s"

section \<open>The lexical ranking as the spec words it\<close>






section \<open>A catalog without the schemas that the metadata drops\<close>

text \<open>
  A tool without the part of its input schema that the metadata does not carry: a schema
  that is not a string-keyed mapping is replaced by the nil interface.
\<close>

fun isStringMap :: "any_value \<Rightarrow> bool" where
  "isStringMap (AnyStringMap schemaMap) = True"
| "isStringMap _ = False"

definition withoutOtherSchema :: "Tool \<Rightarrow> Tool" where
  "withoutOtherSchema t = (if isStringMap (InputSchema t) then t else t\<lparr>InputSchema := AnyNil\<rparr>)"

section \<open>Example catalogs, stores and vector files\<close>

definition deployTool :: Tool where
  "deployTool = \<lparr>Name = ''deploy-tool'', Category = ''infra'', Description = ''Deploy a service'',
                  InputSchema = AnyStringMap [(''type'', AnyString ''object'')]\<rparr>"

definition otherTool :: Tool where
  "otherTool = \<lparr>Name = ''other'', Category = ''deploy'', Description = [],
                 InputSchema = AnyString ''not a mapping''\<rparr>"

definition fooTool :: Tool where
  "fooTool = \<lparr>Name = ''foo'', Category = [], Description = [], InputSchema = AnyNil\<rparr>"

text \<open>
  A lexical store built from the two tools of the spec's ranking example, and an
  external-rerank store built from them whose collaborator answers every call with the
  given list of names.
\<close>

definition lexicalExample :: MockSearchStore where
  "lexicalExample = fst (Mock_BuildFromTools NewMockSearchStore [otherTool, deployTool])"

definition rerankExample :: "string list \<Rightarrow> CodexSearchStore" where
  "rerankExample names =
     fst (Codex_BuildFromTools (\<lambda>toolSchemas. Inr ''[]'')
            (NewCodexSearchStore (\<lambda>query schemas topK. Inr names)) [deployTool, otherTool])"

text \<open>The same external-rerank store with a collaborator whose every call fails.\<close>

definition rerankFailing :: CodexSearchStore where
  "rerankFailing =
     fst (Codex_BuildFromTools (\<lambda>toolSchemas. Inr ''[]'')
            (NewCodexSearchStore (\<lambda>query schemas topK. Inl ''exit status 1''))
            [deployTool, otherTool])"



definition exampleEmbedder :: GloVeEmbedder where
  "exampleEmbedder = \<lparr>vectors = [''hello'' \<mapsto> [3 / 2, 0, 2]], dim = 50\<rparr>"

section \<open>Searching an empty index\<close>

lemma Search_no_tools: "GetToolCount st = 0 \<Longrightarrow> Search st query topK = Inr []"
  by (cases st) (simp_all add: Mock_Search_def Codex_Search_def Semantic_Search_def
      Mock_GetToolCount_def Codex_GetToolCount_def Semantic_GetToolCount_def)

lemma GetToolCount_new:
  "GetToolCount (Lexical NewMockSearchStore) = 0"
  "GetToolCount (Semantic (NewSemanticSearchStore e)) = 0"
  "GetToolCount (ExternalRerank (NewCodexSearchStore sr)) = 0"
  by (simp_all add: Mock_GetToolCount_def NewMockSearchStore_def
      Semantic_GetToolCount_def NewSemanticSearchStore_def
      Codex_GetToolCount_def NewCodexSearchStore_def)

lemma GetToolCount_build_empty: "GetToolCount (fst (BuildFromTools marshal st [])) = 0"
  by (cases st) (simp_all add: Mock_BuildFromTools_def Codex_BuildFromTools_def
      Semantic_BuildFromTools_def Let_def Mock_GetToolCount_def Codex_GetToolCount_def
      Semantic_GetToolCount_def split: sum.splits)

text \<open>
  Claim C3. For every strategy (lexical, semantic, external-rerank), a search on an empty
  index returns the empty list and no error, whatever the query and \<open>topK\<close> are (also a
  negative \<open>topK\<close>): an index whose tool count is zero answers \<open>[]\<close>; so does a new
  store of each strategy, on which no build has run; and so does a store of any strategy
  built from the empty tool list.
\<close>

theorem search_empty_index:
  "(GetToolCount st = 0 \<longrightarrow> Search st query topK = Inr [])
   \<and> Search (Lexical NewMockSearchStore) query topK = Inr []
   \<and> Search (Semantic (NewSemanticSearchStore e)) query topK = Inr []
   \<and> Search (ExternalRerank (NewCodexSearchStore sr)) query topK = Inr []
   \<and> Search (fst (BuildFromTools marshal st' [])) query topK = Inr []"
  using Search_no_tools GetToolCount_new GetToolCount_build_empty by blast

theorem search_empty_index_witness:
  "GetToolCount (fst (BuildFromTools (\<lambda>md. Inr ''[]'') (Lexical NewMockSearchStore) [])) = 0
   \<and> Search (fst (BuildFromTools (\<lambda>md. Inr ''[]'') (Lexical NewMockSearchStore) []))
         ''deploy'' (- 1) = Inr []
   \<and> Search (Lexical NewMockSearchStore) ''deploy'' (- 1) = Inr []
   \<and> Search (Semantic (NewSemanticSearchStore \<lparr>vectors = Map.empty, dim = 50\<rparr>))
         ''deploy'' (- 1) = Inr []
   \<and> Search (ExternalRerank (NewCodexSearchStore (\<lambda>q sc k. Inr [''deploy-tool''])))
         ''deploy'' (- 1) = Inr []
   \<and> Search (fst (BuildFromTools (\<lambda>md. Inl ''unsupported type'')
               (Semantic (NewSemanticSearchStore \<lparr>vectors = Map.empty, dim = 50\<rparr>)) []))
         ''deploy'' (- 1) = Inr []"
  using search_empty_index
    [of "fst (BuildFromTools (\<lambda>md. Inr ''[]'') (Lexical NewMockSearchStore) [])"
        "''deploy''" "- 1" "\<lparr>vectors = Map.empty, dim = 50\<rparr>"
        "\<lambda>q sc k. Inr [''deploy-tool'']" "\<lambda>md. Inl ''unsupported type''"
        "Semantic (NewSemanticSearchStore \<lparr>vectors = Map.empty, dim = 50\<rparr>)"]
  by (simp add: Mock_BuildFromTools_def Mock_GetToolCount_def NewMockSearchStore_def)

section \<open>The external-rerank search: mapping names back to tools\<close>

lemma lookupNames_eq:
  "lookupNames toolMap names results =
     results @ map (the \<circ> toolMap) (filter (\<lambda>n. toolMap n \<noteq> None) names)"
  by (induction names arbitrary: results) (auto split: option.splits)

lemma buildToolMap_notin: "n \<notin> Name ` set ts \<Longrightarrow> buildToolMap ts m n = m n"
  by (induction ts arbitrary: m) auto

lemma buildToolMap_Some:
  "buildToolMap ts m n = Some t \<Longrightarrow> (t \<in> set ts \<and> Name t = n) \<or> m n = Some t"
proof (induction ts arbitrary: m)
  case Nil
  then show ?case by simp
next
  case (Cons a ts)
  from Cons.prems have "buildToolMap ts (m(Name a \<mapsto> a)) n = Some t" by simp
  from Cons.IH [OF this] show ?case by (auto split: if_splits)
qed

lemma buildToolMap_None: "(buildToolMap ts m n = None) = (n \<notin> Name ` set ts \<and> m n = None)"
  by (induction ts arbitrary: m) auto

lemma buildToolMap_distinct:
  "distinct (map Name ts) \<Longrightarrow> t \<in> set ts \<Longrightarrow> buildToolMap ts m (Name t) = Some t"
  by (induction ts arbitrary: m) (auto simp: buildToolMap_notin)

lemma find_distinct:
  "distinct (map Name ts) \<Longrightarrow> t \<in> set ts \<Longrightarrow> find (\<lambda>u. Name u = Name t) ts = Some t"
  by (induction ts) (auto simp: image_iff)

section \<open>The lexical search: truncation and sorting\<close>

lemma topResults_eq:
  "topResults i topK scored results = results @ map tool (take (nat topK - i) (drop i scored))"
proof (induction i topK scored results rule: topResults.induct)
  case (1 i topK scored results)
  show ?case
  proof (cases "i < length scored \<and> int i < topK")
    case True
    then have "nat topK - i = Suc (nat topK - (i + 1))" by linarith
    moreover from True have "drop i scored = scored ! i # drop (i + 1) scored"
      by (simp add: Cons_nth_drop_Suc)
    ultimately show ?thesis
      using True 1 by (subst topResults.simps) simp
  next
    case False
    then show ?thesis
      by (subst topResults.simps) auto
  qed
qed


















section \<open>Bounds on the length of a search result\<close>



lemma Codex_Search_names:
  assumes "searcher s query (schemas s) topK = Inr toolNames"
  shows "Codex_Search s query topK =
           Inr (if codex_tools s = [] then []
                else map (the \<circ> buildToolMap (codex_tools s) Map.empty)
                       (filter (\<lambda>n. buildToolMap (codex_tools s) Map.empty n \<noteq> None) toolNames))"
  using assms by (simp add: Codex_Search_def lookupNames_eq)

lemma in_catalog_iff:
  "(buildToolMap ts Map.empty n \<noteq> None) = (n \<in> Name ` set ts)"
  by (simp add: buildToolMap_None)

lemma Codex_Search_filter:
  assumes "searcher s query (schemas s) topK = Inr toolNames"
  shows "Codex_Search s query topK =
           Inr (map (the \<circ> buildToolMap (codex_tools s) Map.empty)
                  (filter (\<lambda>n. n \<in> Name ` set (codex_tools s)) toolNames))"
proof -
  have "filter (\<lambda>n. buildToolMap (codex_tools s) Map.empty n \<noteq> None) toolNames
          = filter (\<lambda>n. n \<in> Name ` set (codex_tools s)) toolNames"
    by (simp only: in_catalog_iff)
  then show ?thesis
    using Codex_Search_names [OF assms] by (cases "codex_tools s = []") simp_all
qed





text \<open>
  Claim C2, as amended. For \<open>topK <= 0\<close>, every query and every catalog: the lexical
  strategy with \<open>topK = 0\<close> and the semantic strategy return the empty list and
  no error; the external-rerank strategy still consults its collaborator, and returns the
  empty list when the collaborator returns no names, or only names absent from the
  catalog, and the wrapped error when the collaborator fails on a non-empty catalog.
\<close>

theorem search_nonpositive_topK:
  assumes "topK \<le> 0"
  shows "Search (Lexical s1) query 0 = Inr []
       \<and> Search (Semantic s2) query topK = Inr []
       \<and> (searcher s3 query (schemas s3) topK = Inr []
            \<longrightarrow> Search (ExternalRerank s3) query topK = Inr [])
       \<and> (\<forall>toolNames.
             searcher s3 query (schemas s3) topK = Inr toolNames
             \<and> (\<forall>name\<in>set toolNames. name \<notin> Name ` set (codex_tools s3))
             \<longrightarrow> Search (ExternalRerank s3) query topK = Inr [])
       \<and> (\<forall>err.
             codex_tools s3 \<noteq> [] \<and> searcher s3 query (schemas s3) topK = Inl err
             \<longrightarrow> Search (ExternalRerank s3) query topK
                   = Inl (Error (''codex search failed: '' @ err)))"
proof -
  have a: "Search (Lexical s1) query 0 = Inr []"
    by (simp add: Mock_Search_def Let_def topResults_eq)
  from assms have b: "Search (Semantic s2) query topK = Inr []"
    by (simp add: Semantic_Search_def)
  have c: "Search (ExternalRerank s3) query topK = Inr []"
    if "searcher s3 query (schemas s3) topK = Inr toolNames"
      and "\<forall>name\<in>set toolNames. name \<notin> Name ` set (codex_tools s3)" for toolNames
  proof -
    from that(2) have "filter (\<lambda>n. n \<in> Name ` set (codex_tools s3)) toolNames = []"
      by (simp add: filter_empty_conv)
    with Codex_Search_filter [OF that(1)] show ?thesis by simp
  qed
  from c [of "[]"] have c0: "searcher s3 query (schemas s3) topK = Inr []
            \<longrightarrow> Search (ExternalRerank s3) query topK = Inr []"
    by simp
  have d: "Search (ExternalRerank s3) query topK = Inl (Error (''codex search failed: '' @ err))"
    if "codex_tools s3 \<noteq> []" and "searcher s3 query (schemas s3) topK = Inl err" for err
    using that by (simp add: Codex_Search_def)
  from a b c c0 d show ?thesis by blast
qed

theorem search_nonpositive_topK_witness:
  "(- 1::int) \<le> 0
   \<and> Search (Lexical lexicalExample) ''deploy'' 0 = Inr []
   \<and> Search (Semantic \<lparr>sem_embedder = exampleEmbedder, sem_tools = [deployTool],
                        sem_embeddings = [''deploy-tool'' \<mapsto> replicate 50 0]\<rparr>) ''deploy'' (- 1)
       = Inr []
   \<and> searcher (rerankExample [''ghost'']) ''deploy'' (schemas (rerankExample [''ghost''])) (- 1)
       = Inr [''ghost'']
   \<and> Search (ExternalRerank (rerankExample [''ghost''])) ''deploy'' (- 1) = Inr []"
proof -
  have h: "(- 1::int) \<le> 0" by simp
  let ?s = "rerankExample [''ghost'']"
  have b: "searcher ?s ''deploy'' (schemas ?s) (- 1) = Inr [''ghost'']"
    by (simp add: rerankExample_def Codex_BuildFromTools_def NewCodexSearchStore_def)
  have c: "\<forall>name\<in>set [''ghost'']. name \<notin> Name ` set (codex_tools ?s)"
    by (simp add: rerankExample_def Codex_BuildFromTools_def NewCodexSearchStore_def
        deployTool_def otherTool_def)
  from search_nonpositive_topK [OF h, of lexicalExample "''deploy''"
      "\<lparr>sem_embedder = exampleEmbedder, sem_tools = [deployTool],
        sem_embeddings = [''deploy-tool'' \<mapsto> replicate 50 0]\<rparr>" ?s] h b c
  show ?thesis by blast
qed

text \<open>
  With \<open>topK = 0\<close> and a non-empty catalog, the external-rerank search returns a tool
  when the collaborator names one, and an error when the collaborator fails.
\<close>

theorem search_nonpositive_topK_counterexample:
  "Search (ExternalRerank (rerankExample [''deploy-tool''])) ''deploy'' 0 = Inr [deployTool]
   \<and> [deployTool] \<noteq> []
   \<and> Search (ExternalRerank rerankFailing) ''deploy'' 0
       = Inl (Error ''codex search failed: exit status 1'')"
proof -
  have "Codex_Search (rerankExample [''deploy-tool'']) ''deploy'' 0 = Inr [deployTool]"
    by code_simp
  moreover have "Codex_Search rerankFailing ''deploy'' 0
                   = Inl (Error ''codex search failed: exit status 1'')"
    by code_simp
  ultimately show ?thesis by simp
qed

text \<open>
  The lexical store built from one tool, searched with the empty query and \<open>topK = -1\<close>,
  panics: the slice for the results is made with capacity \<open>topK\<close> before the copying
  loop, whose guard \<open>i < topK\<close> would have returned the empty list.
\<close>

theorem lexical_search_negative_topK:
  "Search (fst (BuildFromTools marshal (Lexical NewMockSearchStore) [fooTool])) [] (- 1)
     = Inl (Panic ''makeslice: cap out of range'')"
  by (simp add: Mock_BuildFromTools_def Mock_Search_def NewMockSearchStore_def)

text \<open>
  Claim C5. For the external-rerank strategy, every store and every list of names the
  collaborator returns: the search returns a list and no error; the list is no longer
  than the collaborator's; a returned name that is not the name of a tool of the catalog
  is not the name of any tool of the result; and every tool of the result is a tool of
  the catalog.
\<close>

theorem rerank_drops_unknown_names:
  assumes "searcher s query (schemas s) topK = Inr toolNames"
  shows "\<exists>results.
           Search (ExternalRerank s) query topK = Inr results
         \<and> length results \<le> length toolNames
         \<and> (\<forall>name\<in>set toolNames.
               name \<notin> Name ` set (codex_tools s) \<longrightarrow> name \<notin> Name ` set results)
         \<and> set results \<subseteq> set (codex_tools s)"
proof -
  let ?m = "buildToolMap (codex_tools s) Map.empty"
  let ?results = "map (the \<circ> ?m) (filter (\<lambda>n. n \<in> Name ` set (codex_tools s)) toolNames)"
  have r: "Search (ExternalRerank s) query topK = Inr ?results"
    using Codex_Search_filter [OF assms] by simp
  have sub: "set ?results \<subseteq> set (codex_tools s)"
  proof
    fix t assume "t \<in> set ?results"
    then obtain n where "n \<in> Name ` set (codex_tools s)" and t: "t = the (?m n)" by auto
    then obtain u where "?m n = Some u" using in_catalog_iff [of "codex_tools s" n] by auto
    with t buildToolMap_Some [of "codex_tools s" Map.empty n u] show "t \<in> set (codex_tools s)"
      by simp
  qed
  have "length ?results \<le> length toolNames" by simp
  with r sub show ?thesis by blast
qed

theorem rerank_drops_unknown_names_witness:
  "searcher (rerankExample [''ghost'', ''deploy-tool'']) ''deploy''
       (schemas (rerankExample [''ghost'', ''deploy-tool''])) 5 = Inr [''ghost'', ''deploy-tool'']
   \<and> ''ghost'' \<notin> Name ` set (codex_tools (rerankExample [''ghost'', ''deploy-tool'']))
   \<and> (\<exists>results.
         Search (ExternalRerank (rerankExample [''ghost'', ''deploy-tool''])) ''deploy'' 5 = Inr results
       \<and> length results \<le> length [''ghost'', ''deploy-tool'']
       \<and> ''ghost'' \<notin> Name ` set results)"
proof -
  let ?s = "rerankExample [''ghost'', ''deploy-tool'']"
  have b: "searcher ?s ''deploy'' (schemas ?s) 5 = Inr [''ghost'', ''deploy-tool'']"
    by (simp add: rerankExample_def Codex_BuildFromTools_def NewCodexSearchStore_def)
  have c: "''ghost'' \<notin> Name ` set (codex_tools ?s)"
    by (simp add: rerankExample_def Codex_BuildFromTools_def NewCodexSearchStore_def
        deployTool_def otherTool_def)
  from rerank_drops_unknown_names [OF b] b c show ?thesis
    by auto
qed

text \<open>
  Claim C6. For the external-rerank strategy, every catalog with pairwise distinct tool
  names and every list of names the collaborator returns: the names of the returned
  tools are the collaborator's list restricted to the names present in the catalog, in
  the collaborator's order (repetitions included), and each returned tool is the
  catalog's tool of that name.
\<close>

theorem rerank_preserves_order:
  assumes "distinct (map Name (codex_tools s))"
    and "searcher s query (schemas s) topK = Inr toolNames"
  shows "\<exists>results.
           Search (ExternalRerank s) query topK = Inr results
         \<and> map Name results = filter (\<lambda>n. n \<in> Name ` set (codex_tools s)) toolNames
         \<and> results = map (\<lambda>n. the (find (\<lambda>t. Name t = n) (codex_tools s)))
                       (filter (\<lambda>n. n \<in> Name ` set (codex_tools s)) toolNames)"
proof -
  let ?ts = "codex_tools s"
  let ?m = "buildToolMap ?ts Map.empty"
  let ?known = "filter (\<lambda>n. n \<in> Name ` set ?ts) toolNames"
  have r: "Search (ExternalRerank s) query topK = Inr (map (the \<circ> ?m) ?known)"
    using Codex_Search_filter [OF assms(2)] by simp
  have look: "the (?m n) = the (find (\<lambda>t. Name t = n) ?ts)"
    and name: "Name (the (?m n)) = n"
    if "n \<in> set ?known" for n
  proof -
    from that obtain t where t: "t \<in> set ?ts" "Name t = n" by auto
    from buildToolMap_distinct [OF assms(1) t(1)] t(2) have m: "?m n = Some t" by simp
    from find_distinct [OF assms(1) t(1)] t(2) have "find (\<lambda>u. Name u = n) ?ts = Some t"
      by simp
    with m show "the (?m n) = the (find (\<lambda>t. Name t = n) ?ts)" by simp
    from m t(2) show "Name (the (?m n)) = n" by simp
  qed
  have "map (the \<circ> ?m) ?known = map (\<lambda>n. the (find (\<lambda>t. Name t = n) ?ts)) ?known"
    by (rule map_cong) (simp_all add: look)
  moreover have "map Name (map (the \<circ> ?m) ?known) = ?known"
  proof -
    have "map (Name \<circ> (the \<circ> ?m)) ?known = ?known"
      by (rule map_idI) (simp add: name)
    then show ?thesis by simp
  qed
  ultimately show ?thesis using r by simp
qed

theorem rerank_preserves_order_witness:
  "distinct (map Name (codex_tools (rerankExample [''other'', ''ghost'', ''deploy-tool''])))
   \<and> searcher (rerankExample [''other'', ''ghost'', ''deploy-tool'']) ''deploy''
        (schemas (rerankExample [''other'', ''ghost'', ''deploy-tool''])) 3
       = Inr [''other'', ''ghost'', ''deploy-tool'']
   \<and> Search (ExternalRerank (rerankExample [''other'', ''ghost'', ''deploy-tool''])) ''deploy'' 3
       = Inr [otherTool, deployTool]
   \<and> (\<exists>results.
         Search (ExternalRerank (rerankExample [''other'', ''ghost'', ''deploy-tool''])) ''deploy'' 3
           = Inr results
       \<and> map Name results
           = filter (\<lambda>n. n \<in> Name ` set (codex_tools (rerankExample [''other'', ''ghost'', ''deploy-tool''])))
               [''other'', ''ghost'', ''deploy-tool''])"
proof -
  let ?s = "rerankExample [''other'', ''ghost'', ''deploy-tool'']"
  have a: "distinct (map Name (codex_tools ?s))"
    by (simp add: rerankExample_def Codex_BuildFromTools_def NewCodexSearchStore_def
        deployTool_def otherTool_def)
  have b: "searcher ?s ''deploy'' (schemas ?s) 3 = Inr [''other'', ''ghost'', ''deploy-tool'']"
    by (simp add: rerankExample_def Codex_BuildFromTools_def NewCodexSearchStore_def)
  have "Codex_Search ?s ''deploy'' 3 = Inr [otherTool, deployTool]"
    by code_simp
  then have c: "Search (ExternalRerank ?s) ''deploy'' 3 = Inr [otherTool, deployTool]"
    by simp
  from rerank_preserves_order [OF a b] a b c show ?thesis
    by blast
qed

section \<open>The metadata of a build\<close>

lemma toolMetadata_fields:
  "meta_Name (toolMetadata t) = Name t"
  "meta_Category (toolMetadata t) = Category t"
  "meta_Description (toolMetadata t) = Description t"
  "meta_Parameters (toolMetadata t) =
     (case InputSchema t of AnyStringMap schemaMap \<Rightarrow> Some schemaMap | _ \<Rightarrow> None)"
  by (cases "InputSchema t"; simp add: toolMetadata_def)+

lemma toolSchemasOf_map: "toolSchemasOf ts = map toolMetadata ts"
  by (induction ts) simp_all

lemma toolMetadata_withoutOtherSchema: "toolMetadata (withoutOtherSchema t) = toolMetadata t"
  by (cases "InputSchema t") (simp_all add: toolMetadata_def withoutOtherSchema_def)

text \<open>
  Claim C7. For the external-rerank build and every tool of the input list, at its own
  position of the metadata list: the entry carries the tool's name, category and
  description; its parameters are the tool's schema when that is a string-keyed mapping
  and are omitted otherwise, so they are present exactly for string-keyed mappings. A
  schema of another shape leaves no trace: the metadata list, and with it the error or
  success of the build, is the one of the catalog in which every such schema is replaced
  by the absent schema. The build passes this list to the serialization, caches the
  bytes it returns as the payload, and fails exactly when the serialization does; there
  is no other error return.
\<close>

theorem build_metadata_projection:
  "length (toolSchemasOf allTools) = length allTools
   \<and> (\<forall>i<length allTools.
         meta_Name (toolSchemasOf allTools ! i) = Name (allTools ! i)
       \<and> meta_Category (toolSchemasOf allTools ! i) = Category (allTools ! i)
       \<and> meta_Description (toolSchemasOf allTools ! i) = Description (allTools ! i)
       \<and> meta_Parameters (toolSchemasOf allTools ! i) =
           (case InputSchema (allTools ! i) of
              AnyStringMap schemaMap \<Rightarrow> Some schemaMap | _ \<Rightarrow> None)
       \<and> (meta_Parameters (toolSchemasOf allTools ! i) \<noteq> None)
           = isStringMap (InputSchema (allTools ! i)))
   \<and> toolSchemasOf (map withoutOtherSchema allTools) = toolSchemasOf allTools
   \<and> snd (Codex_BuildFromTools marshal s (map withoutOtherSchema allTools))
       = snd (Codex_BuildFromTools marshal s allTools)
   \<and> Codex_BuildFromTools marshal s allTools =
       (case marshal (toolSchemasOf allTools) of
          Inl err \<Rightarrow> (s\<lparr>codex_tools := allTools\<rparr>,
                       Some (Error (''failed to marshal tool schemas: '' @ err)))
        | Inr bytes \<Rightarrow> (s\<lparr>codex_tools := allTools, schemas := Some bytes\<rparr>, None))"
proof -
  have par: "(meta_Parameters (toolMetadata t) \<noteq> None) = isStringMap (InputSchema t)" for t
    by (cases "InputSchema t") (simp_all add: toolMetadata_def)
  have a: "length (toolSchemasOf allTools) = length allTools"
    by (simp add: toolSchemasOf_map)
  have b: "\<forall>i<length allTools.
         meta_Name (toolSchemasOf allTools ! i) = Name (allTools ! i)
       \<and> meta_Category (toolSchemasOf allTools ! i) = Category (allTools ! i)
       \<and> meta_Description (toolSchemasOf allTools ! i) = Description (allTools ! i)
       \<and> meta_Parameters (toolSchemasOf allTools ! i) =
           (case InputSchema (allTools ! i) of
              AnyStringMap schemaMap \<Rightarrow> Some schemaMap | _ \<Rightarrow> None)
       \<and> (meta_Parameters (toolSchemasOf allTools ! i) \<noteq> None)
           = isStringMap (InputSchema (allTools ! i))"
    using par by (simp add: toolSchemasOf_map toolMetadata_fields)
  have c: "toolSchemasOf (map withoutOtherSchema allTools) = toolSchemasOf allTools"
    by (simp add: toolSchemasOf_map toolMetadata_withoutOtherSchema)
  have d: "Codex_BuildFromTools marshal s allTools =
       (case marshal (toolSchemasOf allTools) of
          Inl err \<Rightarrow> (s\<lparr>codex_tools := allTools\<rparr>,
                       Some (Error (''failed to marshal tool schemas: '' @ err)))
        | Inr bytes \<Rightarrow> (s\<lparr>codex_tools := allTools, schemas := Some bytes\<rparr>, None))"
    by (simp add: Codex_BuildFromTools_def Let_def)
  have e: "snd (Codex_BuildFromTools marshal s (map withoutOtherSchema allTools))
             = snd (Codex_BuildFromTools marshal s allTools)"
    by (simp add: Codex_BuildFromTools_def Let_def c split: sum.splits)
  from a b c e d show ?thesis by (intro conjI)
qed

theorem build_metadata_projection_witness:
  "(1::nat) < length [deployTool, otherTool, fooTool]
   \<and> meta_Name (toolSchemasOf [deployTool, otherTool, fooTool] ! 1) = ''other''
   \<and> meta_Parameters (toolSchemasOf [deployTool, otherTool, fooTool] ! 1) = None
   \<and> meta_Parameters (toolSchemasOf [deployTool, otherTool, fooTool] ! 0)
       = Some [(''type'', AnyString ''object'')]
   \<and> snd (Codex_BuildFromTools (\<lambda>toolSchemas. Inr ''[]'')
             (NewCodexSearchStore (\<lambda>query schemas topK. Inr [])) [deployTool, otherTool, fooTool])
       = None"
  using build_metadata_projection [of "[deployTool, otherTool, fooTool]" "\<lambda>toolSchemas. Inr ''[]''"
      "NewCodexSearchStore (\<lambda>query schemas topK. Inr [])"]
  by (simp add: deployTool_def otherTool_def fooTool_def toolMetadata_def)

section \<open>Parsing the vector file\<close>








section \<open>Generating an embedding\<close>








section \<open>The lengths of the stored vectors\<close>









end
